theory Spec2Isabelle
  imports Complex_Main
begin

section \<open>Values shared by the QC pipeline\<close>

text \<open>
  The pipeline of \<^verbatim>\<open>python/dry/dry.py\<close> works on float64 data held in pandas frames and
  numpy arrays. A float is modelled as a real number or the not-a-number value: \<open>None\<close> is
  NaN, \<open>Some x\<close> a finite number. Everything the code does with missing values is kept:
  NaN propagates through arithmetic, every comparison with NaN is false, the pandas
  reductions skip NaN and the numpy reductions and Python's \<open>sum\<close> do not. In the filters,
  the objective and the report the arithmetic is exact. The outlier detector compares each
  distance with a cutoff computed from the same distances, so there the arithmetic rounds
  as binary64 does (\<open>round64\<close> below). Overflow and the infinities of IEEE arithmetic are
  outside the model throughout.
\<close>

type_synonym float = "real option"

abbreviation NaN :: float where
  "NaN \<equiv> None"

definition fadd :: "float \<Rightarrow> float \<Rightarrow> float" where
  "fadd a b = (case (a, b) of (Some x, Some y) \<Rightarrow> Some (x + y) | _ \<Rightarrow> NaN)"

definition fsub :: "float \<Rightarrow> float \<Rightarrow> float" where
  "fsub a b = (case (a, b) of (Some x, Some y) \<Rightarrow> Some (x - y) | _ \<Rightarrow> NaN)"

definition fmul :: "float \<Rightarrow> float \<Rightarrow> float" where
  "fmul a b = (case (a, b) of (Some x, Some y) \<Rightarrow> Some (x * y) | _ \<Rightarrow> NaN)"

text \<open>Division: \<open>0 / 0\<close> is NaN; a nonzero number over zero is an infinity in IEEE
  arithmetic, which this model has no value for, and is NaN here as well.\<close>

definition fdiv :: "float \<Rightarrow> float \<Rightarrow> float" where
  "fdiv a b =
     (case (a, b) of (Some x, Some y) \<Rightarrow> (if y = 0 then NaN else Some (x / y)) | _ \<Rightarrow> NaN)"

definition flt :: "float \<Rightarrow> float \<Rightarrow> bool" where
  "flt a b = (case (a, b) of (Some x, Some y) \<Rightarrow> x < y | _ \<Rightarrow> False)"

definition isnull :: "float \<Rightarrow> bool" where
  "isnull a = (a = NaN)"

datatype error =
    Exception string
  | KeyError
  | IndexError
  | ValueError
  | TypeError
  | AssertionError

subsection \<open>Frames and arrays\<close>

text \<open>
  A pandas \<^verbatim>\<open>DataFrame\<close> carries row labels (\<open>index\<close>), column labels (\<open>columns\<close>) and
  the values, row by row. A two-dimensional numpy array carries its shape and the values
  only. A frame built by pandas satisfies \<open>wf_frame\<close>.
\<close>

datatype label = IntL int | StrL string

record dataframe =
  index :: "label list"
  columns :: "label list"
  data :: "float list list"

record ndarray =
  nrows :: nat
  ncols :: nat
  cells :: "float list list"


definition column :: "dataframe \<Rightarrow> nat \<Rightarrow> float list" where
  "column df j = map (\<lambda>r. r ! j) (data df)"

definition frame_columns :: "dataframe \<Rightarrow> float list list" where
  "frame_columns df = map (column df) [0..<length (columns df)]"


text \<open>Boolean-mask selection, as \<^verbatim>\<open>df.loc[:, keep]\<close>, \<^verbatim>\<open>df.loc[keep, :]\<close> and
  \<^verbatim>\<open>a[:, keep]\<close> do it: the entries at the positions where the mask is true.\<close>

definition select :: "bool list \<Rightarrow> 'a list \<Rightarrow> 'a list" where
  "select keep xs = map snd (filter fst (zip keep xs))"

definition loc_columns :: "dataframe \<Rightarrow> bool list \<Rightarrow> dataframe" where
  "loc_columns df keep =
     df\<lparr>columns := select keep (columns df), data := map (select keep) (data df)\<rparr>"


text \<open>\<^verbatim>\<open>df.values\<close>: the bare array of a frame; the labels are gone.\<close>

definition frame_values :: "dataframe \<Rightarrow> ndarray" where
  "frame_values df =
     \<lparr>nrows = length (index df), ncols = length (columns df), cells = data df\<rparr>"

text \<open>\<^verbatim>\<open>a[:, keep]\<close> on an array raises \<^verbatim>\<open>IndexError\<close> when the mask is not as long as
  the second dimension.\<close>

definition take_columns :: "ndarray \<Rightarrow> bool list \<Rightarrow> error + ndarray" where
  "take_columns a keep =
     (if length keep \<noteq> ncols a then Inl IndexError
      else Inr \<lparr>nrows = nrows a, ncols = length (filter (\<lambda>b. b) keep),
                cells = map (select keep) (cells a)\<rparr>)"

text \<open>\<^verbatim>\<open>df.loc[:, l]\<close> with a single label: the column of that label, \<^verbatim>\<open>KeyError\<close>
  when no column has it.\<close>

definition loc_label :: "dataframe \<Rightarrow> label \<Rightarrow> error + float list" where
  "loc_label df l =
     (case find (\<lambda>j. columns df ! j = l) [0..<length (columns df)] of
        None \<Rightarrow> Inl KeyError
      | Some j \<Rightarrow> Inr (column df j))"

text \<open>\<^verbatim>\<open>df.add(v)\<close> with a one-dimensional array: \<open>v\<close> is added to every row.\<close>

definition frame_add :: "dataframe \<Rightarrow> float list \<Rightarrow> dataframe" where
  "frame_add df v = df\<lparr>data := map (\<lambda>r. map2 fadd r v) (data df)\<rparr>"

subsection \<open>Reductions\<close>

definition count_nulls :: "float list \<Rightarrow> nat" where
  "count_nulls xs = length (filter isnull xs)"

text \<open>A count of missing values over the size of the axis. With a size of zero there is
  nothing to count, so the quotient is \<open>0 / 0\<close>, which pandas gives as NaN.\<close>

definition count_divide :: "nat \<Rightarrow> nat \<Rightarrow> float" where
  "count_divide n d = (if d = 0 then NaN else Some (real n / real d))"

definition dropna :: "float list \<Rightarrow> real list" where
  "dropna xs = List.map_filter (\<lambda>x. x) xs"

text \<open>\<^verbatim>\<open>Series.std\<close>: missing values skipped, one degree of freedom taken off; NaN when
  fewer than two values are left.\<close>

definition pd_std :: "float list \<Rightarrow> float" where
  "pd_std xs =
     (let vs = dropna xs; count = length vs
      in if count \<le> 1 then NaN
         else let avg = sum_list vs / real count;
                  sqr = sum_list (map (\<lambda>v. (avg - v)\<^sup>2) vs)
              in Some (sqrt (sqr / real (count - 1))))"

text \<open>\<^verbatim>\<open>Series.median\<close>: missing values skipped; NaN when none is left.\<close>

definition pd_median :: "float list \<Rightarrow> float" where
  "pd_median xs =
     (let vs = sort (dropna xs); n = length vs
      in if n = 0 then NaN
         else if odd n then Some (vs ! (n div 2))
         else Some ((vs ! (n div 2 - 1) + vs ! (n div 2)) / 2))"

definition np_square :: "float list \<Rightarrow> float list" where
  "np_square xs = map (\<lambda>x. fmul x x) xs"

text \<open>Python's built-in \<^verbatim>\<open>sum\<close>: a left fold of \<open>+\<close> from \<open>0\<close>.\<close>

definition py_sum :: "float list \<Rightarrow> float" where
  "py_sum xs = foldl fadd (Some 0) xs"

text \<open>Arithmetic of two one-dimensional arrays: entry by entry when the lengths agree, an
  array of length one is stretched, any other pair of lengths raises \<^verbatim>\<open>ValueError\<close>.\<close>

definition broadcast ::
  "(float \<Rightarrow> float \<Rightarrow> float) \<Rightarrow> float list \<Rightarrow> float list \<Rightarrow> error + float list" where
  "broadcast f xs ys =
     (if length xs = length ys then Inr (map2 f xs ys)
      else if length xs = 1 then Inr (map (f (hd xs)) ys)
      else if length ys = 1 then Inr (map (\<lambda>x. f x (hd ys)) xs)
      else Inl ValueError)"

section \<open>The pipeline of dry.py\<close>

subsection \<open>Provenance ledger\<close>

definition allowed_assay_types :: "string list" where
  "allowed_assay_types = [''PR1'', ''GR1'', ''DR1'']"

definition error_msg :: string where
  "error_msg = ''The first entry of the provenance code should be the assay type. '' @
               ''Assay type not recognized. assay_type: ''"

text \<open>
  \<^verbatim>\<open>determine_assay_type(prov_code)\<close>: the string is wrapped in a numpy string array,
  looked up in the array of allowed entries, and returned; an unknown entry raises
  \<^verbatim>\<open>Exception\<close> with the message formatted with the entry. A numpy string array holds
  its entries in fixed width, padded with NUL characters, so what it holds of a string is
  the string without its trailing NUL characters (\<open>np_str\<close>).
\<close>

definition NUL :: char where
  "NUL = CHR 0x00"

definition np_str :: "string \<Rightarrow> string" where
  "np_str s = rev (dropWhile (\<lambda>c. c = NUL) (rev s))"

definition determine_assay_type :: "string \<Rightarrow> error + string" where
  "determine_assay_type prov_code =
     (let assay_type = np_str prov_code
      in if assay_type \<notin> set (map np_str allowed_assay_types)
         then Inl (Exception (error_msg @ assay_type))
         else Inr assay_type)"




subsection \<open>Probe and sample filters\<close>

text \<open>\<^verbatim>\<open>filter_samples(df, sample_pct_cutoff)\<close>. The result is \<^verbatim>\<open>out_df.values\<close>, a bare
  array.\<close>

definition filter_samples :: "dataframe \<Rightarrow> float \<Rightarrow> ndarray" where
  "filter_samples df sample_pct_cutoff =
     (let num_nans = map (\<lambda>j. count_nulls (column df j)) [0..<length (columns df)];
          num_probes = length (index df);
          pct_nans_per_sample = map (\<lambda>n. count_divide n num_probes) num_nans;
          out_df = loc_columns df (map (\<lambda>p. flt p sample_pct_cutoff) pct_nans_per_sample)
      in frame_values out_df)"










subsection \<open>Sample balance optimizer\<close>

text \<open>\<^verbatim>\<open>function_to_optimize(offset, values, medians)\<close>: the squares are added up by
  Python's \<^verbatim>\<open>sum\<close>.\<close>

definition function_to_optimize :: "float \<Rightarrow> float list \<Rightarrow> float list \<Rightarrow> error + float" where
  "function_to_optimize offset vals medians =
     (case broadcast fsub (map (fadd offset) vals) medians of
        Inl e \<Rightarrow> Inl e
      | Inr deviations \<Rightarrow> (let out = py_sum (np_square deviations) in Inr out))"

text \<open>The objective in the words of the specification: the squares are added up over the
  probes with defined values, a missing entry adds nothing.\<close>

definition spec_objective :: "real \<Rightarrow> float list \<Rightarrow> float list \<Rightarrow> real" where
  "spec_objective offset vals medians =
     (\<Sum>(v, m) \<leftarrow> zip vals medians.
        case (v, m) of (Some a, Some b) \<Rightarrow> (offset + a - b)\<^sup>2 | _ \<Rightarrow> 0)"

text \<open>
  \<^verbatim>\<open>scipy.optimize.minimize_scalar\<close> is a library routine and is a parameter of the model:
  from the objective and the bounds it returns a result with the fields \<^verbatim>\<open>x\<close>,
  \<^verbatim>\<open>fun\<close> and \<^verbatim>\<open>success\<close>.
\<close>

record optimize_result =
  res_x :: float
  res_fun :: float
  res_success :: bool

type_synonym minimizer = "(float \<Rightarrow> error + float) \<Rightarrow> real \<times> real \<Rightarrow> optimize_result"

record optimization_state =
  optimized_offsets :: "float list"
  optimized_distances :: "float list"
  unoptimized_distances :: "float list"
  success_bools :: "bool list"

text \<open>The loop over \<^verbatim>\<open>range(num_samples)\<close>. The column is fetched by label,
  \<^verbatim>\<open>df.loc[:, sample_ind]\<close>, so the loop raises \<^verbatim>\<open>KeyError\<close> at the first index that is
  not a column label.\<close>

fun sample_loop ::
  "minimizer \<Rightarrow> real \<times> real \<Rightarrow> dataframe \<Rightarrow> float list \<Rightarrow> nat list
   \<Rightarrow> optimization_state \<Rightarrow> error + optimization_state" where
  "sample_loop minimize_scalar offset_bounds df probe_medians [] st = Inr st"
| "sample_loop minimize_scalar offset_bounds df probe_medians (sample_ind # rest) st =
     (case loc_label df (IntL (int sample_ind)) of
        Inl e \<Rightarrow> Inl e
      | Inr sample_vals \<Rightarrow>
          (case function_to_optimize (Some 0) sample_vals probe_medians of
             Inl e \<Rightarrow> Inl e
           | Inr unoptimized \<Rightarrow>
               (let optimization_result =
                      minimize_scalar
                        (\<lambda>offset. function_to_optimize offset sample_vals probe_medians)
                        offset_bounds
                in sample_loop minimize_scalar offset_bounds df probe_medians rest
                     (st\<lparr>unoptimized_distances :=
                           (unoptimized_distances st)[sample_ind := unoptimized],
                         optimized_offsets :=
                           (optimized_offsets st)[sample_ind := res_x optimization_result],
                         optimized_distances :=
                           (optimized_distances st)[sample_ind := res_fun optimization_result],
                         success_bools :=
                           (success_bools st)[sample_ind := res_success optimization_result]\<rparr>))))"

text \<open>A run of \<^verbatim>\<open>optimize_sample_balance\<close> returns the pair of the frame with the
  offsets applied and the distances; the samples that did not converge are printed, as the
  sub-frame of their columns, and are no part of the returned value.\<close>

record balance_run =
  printed :: "dataframe option"
  returned :: "dataframe \<times> float list"

definition optimize_sample_balance ::
  "minimizer \<Rightarrow> dataframe \<Rightarrow> real \<times> real \<Rightarrow> error + balance_run" where
  "optimize_sample_balance minimize_scalar df offset_bounds =
     (let probe_medians = map pd_median (data df);
          num_samples = length (columns df);
          init = \<lparr>optimized_offsets = replicate num_samples (Some 0),
                  optimized_distances = replicate num_samples (Some 0),
                  unoptimized_distances = replicate num_samples (Some 0),
                  success_bools = replicate num_samples False\<rparr>
      in case sample_loop minimize_scalar offset_bounds df probe_medians [0..<num_samples] init of
           Inl e \<Rightarrow> Inl e
         | Inr st \<Rightarrow>
             (let out = (if \<not> list_all (\<lambda>b. b) (success_bools st)
                         then Some (loc_columns df (map Not (success_bools st)))
                         else None);
                  df_with_offsets = frame_add df (optimized_offsets st)
              in Inr \<lparr>printed = out, returned = (df_with_offsets, optimized_distances st)\<rparr>))"

subsection \<open>Outlier detector\<close>

text \<open>
  Binary64 arithmetic: the exact result of an operation, rounded to the nearest number
  with a significand of 53 bits, ties to the even significand. The unit in the last place
  of \<open>x\<close> is \<open>2\<close> to the power \<open>ulp_exponent x\<close>; below \<open>2 powi (- 1022)\<close> the
  numbers are subnormal and the unit stays \<open>2 powi (- 1074)\<close>.
\<close>

definition round_half_even :: "real \<Rightarrow> int" where
  "round_half_even q =
     (let f = \<lfloor>q\<rfloor>; r = q - of_int f
      in if r < 1/2 then f else if 1/2 < r then f + 1 else if even f then f else f + 1)"

definition ulp_exponent :: "real \<Rightarrow> int" where
  "ulp_exponent x = max \<lfloor>log 2 \<bar>x\<bar>\<rfloor> (- 1022) - 52"

definition round64 :: "real \<Rightarrow> real" where
  "round64 x =
     (if x = 0 then 0
      else of_int (round_half_even (x / 2 powi ulp_exponent x)) * 2 powi ulp_exponent x)"

definition is_float64 :: "float \<Rightarrow> bool" where
  "is_float64 a = (case a of None \<Rightarrow> True | Some x \<Rightarrow> round64 x = x)"

definition fadd64 :: "float \<Rightarrow> float \<Rightarrow> float" where
  "fadd64 a b = (case (a, b) of (Some x, Some y) \<Rightarrow> Some (round64 (x + y)) | _ \<Rightarrow> NaN)"

definition fsub64 :: "float \<Rightarrow> float \<Rightarrow> float" where
  "fsub64 a b = (case (a, b) of (Some x, Some y) \<Rightarrow> Some (round64 (x - y)) | _ \<Rightarrow> NaN)"

definition fmul64 :: "float \<Rightarrow> float \<Rightarrow> float" where
  "fmul64 a b = (case (a, b) of (Some x, Some y) \<Rightarrow> Some (round64 (x * y)) | _ \<Rightarrow> NaN)"

definition fdiv64 :: "float \<Rightarrow> float \<Rightarrow> float" where
  "fdiv64 a b =
     (case (a, b) of
        (Some x, Some y) \<Rightarrow> (if y = 0 then NaN else Some (round64 (x / y)))
      | _ \<Rightarrow> NaN)"

definition fsqrt64 :: "float \<Rightarrow> float" where
  "fsqrt64 a = (case a of Some x \<Rightarrow> (if x < 0 then NaN else Some (round64 (sqrt x))) | None \<Rightarrow> NaN)"

text \<open>
  \<^verbatim>\<open>np.add.reduce\<close> on a float64 array adds pairwise: fewer than eight numbers one after
  the other; up to 128 numbers in eight running sums, which are then added in pairs, and
  the numbers left over after the last block of eight one after the other; more than 128
  numbers as the sum of two halves, the first a multiple of eight long.
\<close>

function accumulate8 :: "float list \<Rightarrow> float list \<Rightarrow> float list" where
  "accumulate8 r ys =
     (if length ys < 8 then r
      else accumulate8 (map2 fadd64 r (take 8 ys)) (drop 8 ys))"
  by pat_completeness auto
termination
  by (relation "measure (\<lambda>(r, ys). length ys)") auto

function pairwise_sum :: "float list \<Rightarrow> float" where
  "pairwise_sum xs =
     (if length xs < 8 then foldl fadd64 (Some 0) xs
      else if length xs \<le> 128 then
        (let m = length xs - length xs mod 8;
             r = accumulate8 (take 8 xs) (drop 8 (take m xs));
             res = fadd64 (fadd64 (fadd64 (r ! 0) (r ! 1)) (fadd64 (r ! 2) (r ! 3)))
                          (fadd64 (fadd64 (r ! 4) (r ! 5)) (fadd64 (r ! 6) (r ! 7)))
         in foldl fadd64 res (drop m xs))
      else
        (let n2 = length xs div 2 - (length xs div 2) mod 8
         in fadd64 (pairwise_sum (take n2 xs)) (pairwise_sum (drop n2 xs))))"
  by pat_completeness auto
termination
  by (relation "measure length") auto

declare accumulate8.simps [simp del] pairwise_sum.simps [simp del]

text \<open>\<^verbatim>\<open>np.mean\<close> and \<^verbatim>\<open>np.std\<close>: nothing is skipped, a NaN entry makes the result NaN,
  and so does the empty array (\<open>0 / 0\<close>). \<^verbatim>\<open>np.std\<close> divides by the number of entries.\<close>

definition np_sum :: "float list \<Rightarrow> float" where
  "np_sum xs = pairwise_sum xs"

definition np_mean :: "float list \<Rightarrow> float" where
  "np_mean xs = fdiv64 (np_sum xs) (Some (real (length xs)))"

definition np_std :: "float list \<Rightarrow> float" where
  "np_std xs =
     (let arrmean = np_mean xs;
          x = map (\<lambda>a. fsub64 a arrmean) xs;
          x2 = map (\<lambda>a. fmul64 a a) x
      in fsqrt64 (fdiv64 (np_sum x2) (Some (real (length xs)))))"

text \<open>
  \<^verbatim>\<open>remove_sample_outliers(df, distances, sd_sample_outlier_cutoff)\<close>. The docstring gives
  \<open>df\<close> as a pandas frame, and \<open>optimize_sample_balance\<close> returns one; the body indexes it
  as a numpy array, \<^verbatim>\<open>df[:, distances < cutoff]\<close>. On a frame that key, a tuple of a slice
  and an array, is looked up as a column label and raises \<^verbatim>\<open>TypeError\<close> (unhashable);
  on an array it selects columns.
\<close>

datatype matrix = Frame dataframe | Array ndarray

definition remove_sample_outliers :: "matrix \<Rightarrow> float list \<Rightarrow> float \<Rightarrow> error + ndarray" where
  "remove_sample_outliers df distances sd_sample_outlier_cutoff =
     (let cutoff = fadd64 (np_mean distances) (fmul64 (np_std distances) sd_sample_outlier_cutoff)
      in case df of
           Frame f \<Rightarrow> Inl TypeError
         | Array a \<Rightarrow> take_columns a (map (\<lambda>d. flt d cutoff) distances))"

section \<open>Definitions for the statements\<close>

text \<open>The column that \<^verbatim>\<open>df.loc[:, i]\<close> fetches for the index \<open>i\<close> of the loop, and what the
  minimizer returns for it: it is run on the objective of that column against the probe
  medians of the frame.\<close>

definition label_column :: "dataframe \<Rightarrow> nat \<Rightarrow> float list" where
  "label_column df i = (case loc_label df (IntL (int i)) of Inr vals \<Rightarrow> vals | Inl _ \<Rightarrow> [])"

definition sample_result :: "minimizer \<Rightarrow> dataframe \<Rightarrow> real \<times> real \<Rightarrow> nat \<Rightarrow> optimize_result" where
  "sample_result minimize_scalar df offset_bounds i =
     minimize_scalar
       (\<lambda>offset. function_to_optimize offset (label_column df i) (map pd_median (data df)))
       offset_bounds"

text \<open>One pass of the loop body, once the column is found.\<close>

definition loop_step ::
  "minimizer \<Rightarrow> dataframe \<Rightarrow> real \<times> real \<Rightarrow> optimization_state \<Rightarrow> nat \<Rightarrow> optimization_state" where
  "loop_step ms df b st i =
     st\<lparr>unoptimized_distances :=
          (unoptimized_distances st)
            [i := py_sum (np_square (map2 fsub (map (fadd (Some 0)) (label_column df i))
                                       (map pd_median (data df))))],
        optimized_offsets := (optimized_offsets st)[i := res_x (sample_result ms df b i)],
        optimized_distances := (optimized_distances st)[i := res_fun (sample_result ms df b i)],
        success_bools := (success_bools st)[i := res_success (sample_result ms df b i)]\<rparr>"

text \<open>All indices of the loop are column labels.\<close>

definition labels_present :: "dataframe \<Rightarrow> nat list \<Rightarrow> bool" where
  "labels_present df js = list_all (\<lambda>j. IntL (int j) \<in> set (columns df)) js"


text \<open>A minimizer for the examples: it looks at the offset \<open>1\<close> only and reports the
  convergence flag it is given.\<close>

definition stub_minimizer :: "bool \<Rightarrow> minimizer" where
  "stub_minimizer ok f b =
     \<lparr>res_x = Some 1, res_fun = (case f (Some 1) of Inr v \<Rightarrow> v | Inl _ \<Rightarrow> NaN), res_success = ok\<rparr>"

text \<open>Frames and arrays for the examples.\<close>

definition qc_frame :: dataframe where
  "qc_frame = \<lparr>index = [StrL ''p1'', StrL ''p2'', StrL ''p3''],
               columns = [StrL ''a'', StrL ''b'', StrL ''c''],
               data = [[Some 1, Some 3, NaN], [NaN, NaN, NaN], [Some 1, Some 11, Some 3]]\<rparr>"

definition balance_frame :: dataframe where
  "balance_frame = \<lparr>index = [StrL ''p1'', StrL ''p2''],
                    columns = [IntL 0, IntL 1],
                    data = [[Some 1, Some 3], [Some 5, Some 5]]\<rparr>"

definition five_samples :: ndarray where
  "five_samples = \<lparr>nrows = 1, ncols = 5, cells = [[Some 2, Some 3, Some 5, Some 7, Some 11]]\<rparr>"



text \<open>The float64 number nearest to \<open>0.1\<close>, which is what the literal \<^verbatim>\<open>0.1\<close> denotes.\<close>

definition tenth :: float where
  "tenth = Some (3602879701896397 / 2 ^ 55)"

definition three_samples :: ndarray where
  "three_samples = \<lparr>nrows = 1, ncols = 3, cells = [[Some 2, Some 3, Some 5]]\<rparr>"

section \<open>The plate/well report of qc_gct2pw.py\<close>

text \<open>
  \<^verbatim>\<open>utils/qc_gct2pw.py\<close> reads a dataset, divides each value by the maximum of its row,
  computes statistics per sample and writes a table with one row per sample. Reading and
  writing files are outside the model: \<open>main\<close> takes the parsed dataset and returns the
  table that is written. The column metadata is a table of strings, given by its fields;
  the written table has strings in its first two columns and numbers in the others.
\<close>

definition PROV_CODE_FIELD :: string where
  "PROV_CODE_FIELD = ''provenance_code''"

definition PROV_CODE_DELIMITER :: char where
  "PROV_CODE_DELIMITER = CHR ''+''"

definition LOG_TRANSFORM_PROV_CODE_ENTRY :: string where
  "LOG_TRANSFORM_PROV_CODE_ENTRY = ''L2X''"

type_synonym meta_frame = "(string \<times> string list) list"

record gct =
  data_df :: dataframe
  col_metadata_df :: meta_frame

record args =
  plate_field :: string
  well_field :: string

datatype cell = Str string | Num float

type_synonym out_frame = "(string \<times> cell list) list"

text \<open>\<^verbatim>\<open>str.split\<close> with a one-character delimiter.\<close>

fun split :: "char \<Rightarrow> string \<Rightarrow> string list" where
  "split d [] = [[]]"
| "split d (c # cs) =
     (if c = d then [] # split d cs
      else (case split d cs of
              w # ws \<Rightarrow> (c # w) # ws
            | [] \<Rightarrow> [[c]]))"

text \<open>A field of the metadata, \<^verbatim>\<open>col_meta[field]\<close>: \<^verbatim>\<open>KeyError\<close> when it is absent.\<close>

definition meta_column :: "meta_frame \<Rightarrow> string \<Rightarrow> error + string list" where
  "meta_column m field = (case map_of m field of None \<Rightarrow> Inl KeyError | Some vs \<Rightarrow> Inr vs)"

text \<open>The loop of \<^verbatim>\<open>extract_plate_and_well_names\<close>, with its assertion in the body.\<close>

fun plate_loop :: "string list \<Rightarrow> string list \<Rightarrow> bool \<Rightarrow> error + unit" where
  "plate_loop plate_names [] plate_names_same = Inr ()"
| "plate_loop plate_names (plate # rest) plate_names_same =
     (let plate_names_same' = (plate_names_same \<and> plate = hd plate_names)
      in if \<not> plate_names_same' then Inl AssertionError
         else plate_loop plate_names rest plate_names_same')"

definition extract_plate_and_well_names ::
  "meta_frame \<Rightarrow> string \<Rightarrow> string \<Rightarrow> error + string list \<times> string list" where
  "extract_plate_and_well_names col_meta plate_f well_f =
     (case meta_column col_meta plate_f of
        Inl e \<Rightarrow> Inl e
      | Inr plate_names \<Rightarrow>
          (case plate_loop plate_names plate_names True of
             Inl e \<Rightarrow> Inl e
           | Inr _ \<Rightarrow>
               (case meta_column col_meta well_f of
                  Inl e \<Rightarrow> Inl e
                | Inr well_names \<Rightarrow> Inr (plate_names, well_names))))"

text \<open>\<^verbatim>\<open>sorted\<close> on strings: code point order, by insertion.\<close>

fun str_less :: "string \<Rightarrow> string \<Rightarrow> bool" where
  "str_less [] [] = False"
| "str_less [] (y # ys) = True"
| "str_less (x # xs) [] = False"
| "str_less (x # xs) (y # ys) =
     ((of_char x :: nat) < of_char y \<or> (x = y \<and> str_less xs ys))"

fun insert_sorted :: "string \<Rightarrow> string list \<Rightarrow> string list" where
  "insert_sorted k [] = [k]"
| "insert_sorted k (x # xs) = (if str_less x k then x # insert_sorted k xs else k # x # xs)"

definition sorted_strings :: "string list \<Rightarrow> string list" where
  "sorted_strings ks = foldr insert_sorted ks []"

text \<open>\<^verbatim>\<open>assemble_output_df(plate_names, well_names, **kwargs)\<close>; the keyword arguments are
  the list of their names and values.\<close>

fun kwargs_check :: "nat \<Rightarrow> (string \<times> float list) list \<Rightarrow> error + unit" where
  "kwargs_check num_wells [] = Inr ()"
| "kwargs_check num_wells (kwarg # rest) =
     (if length (snd kwarg) \<noteq> num_wells then Inl AssertionError
      else kwargs_check num_wells rest)"

definition assemble_output_df ::
  "string list \<Rightarrow> string list \<Rightarrow> (string \<times> float list) list \<Rightarrow> error + out_frame" where
  "assemble_output_df plate_names well_names kwargs =
     (let PLATE_FIELD = ''plate_name'';
          WELL_FIELD = ''well_name'';
          plate_and_well_dict =
            [PLATE_FIELD \<mapsto> map Str plate_names, WELL_FIELD \<mapsto> map Str well_names]
      in if length plate_names \<noteq> length well_names then Inl AssertionError
         else let num_wells = length well_names
              in case kwargs_check num_wells kwargs of
                   Inl e \<Rightarrow> Inl e
                 | Inr _ \<Rightarrow>
                     (let df_dict = plate_and_well_dict
                                      ++ map_of (map (\<lambda>(k, v). (k, map Num v)) kwargs);
                          cols = [PLATE_FIELD, WELL_FIELD] @ sorted_strings (map fst kwargs)
                      in Inr (List.map_filter (\<lambda>c. map_option (Pair c) (df_dict c)) cols)))"

text \<open>The pandas reductions of \<open>main\<close>, all skipping missing values: \<^verbatim>\<open>max\<close>,
  \<^verbatim>\<open>mean\<close> and \<^verbatim>\<open>mad\<close>, the mean absolute deviation from the mean.\<close>

definition pd_max :: "float list \<Rightarrow> float" where
  "pd_max xs = (case dropna xs of [] \<Rightarrow> NaN | v # vs \<Rightarrow> Some (foldl max v vs))"

definition pd_mean :: "float list \<Rightarrow> float" where
  "pd_mean xs = (let vs = dropna xs in if vs = [] then NaN else Some (sum_list vs / real (length vs)))"

definition pd_mad :: "float list \<Rightarrow> float" where
  "pd_mad xs =
     (let vs = dropna xs
      in if vs = [] then NaN
         else let avg = sum_list vs / real (length vs)
              in Some (sum_list (map (\<lambda>v. \<bar>v - avg\<bar>) vs) / real (length vs)))"

definition np_exp2 :: "dataframe \<Rightarrow> dataframe" where
  "np_exp2 df = df\<lparr>data := map (map (map_option (\<lambda>x. 2 powr x))) (data df)\<rparr>"

definition frame_div_rows :: "dataframe \<Rightarrow> float list \<Rightarrow> dataframe" where
  "frame_div_rows df v = df\<lparr>data := map2 (\<lambda>r m. map (\<lambda>x. fdiv x m) r) (data df) v\<rparr>"

text \<open>\<open>main\<close>: the four statistics are computed, and the table is assembled from the
  medians and the mean absolute deviations.\<close>

definition main :: "args \<Rightarrow> gct \<Rightarrow> error + out_frame" where
  "main a g =
     (case extract_plate_and_well_names (col_metadata_df g) (plate_field a) (well_field a) of
        Inl e \<Rightarrow> Inl e
      | Inr (plate_names, well_names) \<Rightarrow>
          (case meta_column (col_metadata_df g) PROV_CODE_FIELD of
             Inl e \<Rightarrow> Inl e
           | Inr prov_code_series \<Rightarrow>
               (let prov_code_list_series = map (split PROV_CODE_DELIMITER) prov_code_series
                in case prov_code_list_series of
                     [] \<Rightarrow> Inl IndexError
                   | prov_code # _ \<Rightarrow>
                       (let df = (if LOG_TRANSFORM_PROV_CODE_ENTRY \<in> set prov_code
                                  then np_exp2 (data_df g) else data_df g);
                            max_row_values = map pd_max (data df);
                            divided_data_df = frame_div_rows df max_row_values;
                            medium_over_heavy_medians = map pd_median (frame_columns divided_data_df);
                            medium_over_heavy_means = map pd_mean (frame_columns divided_data_df);
                            medium_over_heavy_mads = map pd_mad (frame_columns divided_data_df);
                            medium_over_heavy_sds = map pd_std (frame_columns divided_data_df)
                        in assemble_output_df plate_names well_names
                             [(''medium_over_heavy_median'', medium_over_heavy_medians),
                              (''medium_over_heavy_mad'', medium_over_heavy_mads)]))))"

text \<open>A dataset for the examples.\<close>

definition plate_gct :: gct where
  "plate_gct =
     \<lparr>data_df = \<lparr>index = [StrL ''p1'', StrL ''p2''],
                  columns = [StrL ''s1'', StrL ''s2''],
                  data = [[Some 1, Some 2], [Some 4, Some 2]]\<rparr>,
      col_metadata_df = [(''det_plate'', [''P1'', ''P1'']),
                         (''det_well'', [''A01'', ''A02'']),
                         (''provenance_code'', [''PR1+SF8'', ''PR1+SF8''])]\<rparr>"

definition plate_args :: args where
  "plate_args = \<lparr>plate_field = ''det_plate'', well_field = ''det_well''\<rparr>"


section \<open>Properties of the provenance ledger\<close>

lemma np_str_padded:
  assumes "t = [] \<or> last t \<noteq> NUL"
  shows "np_str (t @ replicate n NUL) = t"
proof -
  have "dropWhile (\<lambda>c. c = NUL) (replicate n NUL @ rev t) = dropWhile (\<lambda>c. c = NUL) (rev t)"
    by (induction n) simp_all
  also have "\<dots> = rev t"
    using assms by (cases t rule: rev_cases) auto
  finally show ?thesis by (simp add: np_str_def)
qed

lemma np_str_decompose: "\<exists>n. s = np_str s @ replicate n NUL"
proof -
  let ?P = "\<lambda>c. c = NUL"
  have "rev s = takeWhile ?P (rev s) @ dropWhile ?P (rev s)" by simp
  moreover have "takeWhile ?P (rev s) = replicate (length (takeWhile ?P (rev s))) NUL"
    by (rule replicate_length_same [symmetric]) (auto dest: set_takeWhileD)
  ultimately have "rev s = replicate (length (takeWhile ?P (rev s))) NUL @ dropWhile ?P (rev s)"
    by metis
  then have "s = rev (replicate (length (takeWhile ?P (rev s))) NUL @ dropWhile ?P (rev s))"
    by (metis rev_rev_ident)
  then have "s = np_str s @ replicate (length (takeWhile ?P (rev s))) NUL"
    by (simp add: np_str_def)
  then show ?thesis ..
qed

lemma np_str_allowed: "map np_str allowed_assay_types = [''PR1'', ''GR1'', ''DR1'']"
  by (simp add: allowed_assay_types_def np_str_def NUL_def)

lemma np_str_iff:
  assumes "t = [] \<or> last t \<noteq> NUL"
  shows "np_str s = t \<longleftrightarrow> (\<exists>n. s = t @ replicate n NUL)"
  using np_str_padded [OF assms] np_str_decompose [of s] by metis

text \<open>
  C7 (as the code has it). The assay-type check succeeds exactly on the strings that are
  one of the three recognised assay types followed by any number of NUL characters, none
  included, and returns the assay type; on every other string it raises the exception;
  \<open>PR1\<close> is accepted and \<open>XX9\<close> is refused.
\<close>

theorem determine_assay_type_iff:
  "((determine_assay_type s = Inr t)
      = (t \<in> {''PR1'', ''GR1'', ''DR1''} \<and> (\<exists>n. s = t @ replicate n NUL)))
   \<and> ((\<exists>m. determine_assay_type s = Inl (Exception m))
      = (\<not> (\<exists>t n. t \<in> {''PR1'', ''GR1'', ''DR1''} \<and> s = t @ replicate n NUL)))
   \<and> determine_assay_type ''PR1'' = Inr ''PR1''
   \<and> determine_assay_type ''XX9'' = Inl (Exception (error_msg @ ''XX9''))"
proof -
  have last: "t = [] \<or> last t \<noteq> NUL" if "t \<in> {''PR1'', ''GR1'', ''DR1''}" for t
    using that by (auto simp: NUL_def)
  have ok: "(determine_assay_type s = Inr t)
            = (t \<in> {''PR1'', ''GR1'', ''DR1''} \<and> (\<exists>n. s = t @ replicate n NUL))" for s t
  proof
    assume "determine_assay_type s = Inr t"
    then have t: "np_str s = t" "t \<in> {''PR1'', ''GR1'', ''DR1''}"
      by (auto simp: determine_assay_type_def np_str_allowed Let_def split: if_splits)
    with np_str_iff [OF last [OF t(2)], of s] show "t \<in> {''PR1'', ''GR1'', ''DR1''} \<and> (\<exists>n. s = t @ replicate n NUL)"
      by simp
  next
    assume a: "t \<in> {''PR1'', ''GR1'', ''DR1''} \<and> (\<exists>n. s = t @ replicate n NUL)"
    then have "np_str s = t" using np_str_iff [OF last, of t s] by blast
    with a show "determine_assay_type s = Inr t"
      by (auto simp: determine_assay_type_def np_str_allowed Let_def)
  qed
  have fail: "(\<exists>m. determine_assay_type s = Inl (Exception m))
              = (\<not> (\<exists>t n. t \<in> {''PR1'', ''GR1'', ''DR1''} \<and> s = t @ replicate n NUL))"
  proof -
    have "(\<exists>m. determine_assay_type s = Inl (Exception m)) = (\<not> (\<exists>t. determine_assay_type s = Inr t))"
      by (auto simp: determine_assay_type_def Let_def)
    then show ?thesis unfolding ok by blast
  qed
  have "determine_assay_type ''PR1'' = Inr ''PR1''"
    unfolding ok by (simp add: exI [of _ 0])
  moreover have "determine_assay_type ''XX9'' = Inl (Exception (error_msg @ ''XX9''))"
    by (simp add: determine_assay_type_def np_str_allowed Let_def) (simp add: np_str_def NUL_def)
  ultimately show ?thesis using ok fail by blast
qed

text \<open>\<open>PR1\<close> followed by a NUL character is none of the three assay types, and is
  accepted.\<close>

theorem determine_assay_type_counterexample:
  "determine_assay_type (''PR1'' @ [NUL]) = Inr ''PR1''
   \<and> ''PR1'' @ [NUL] \<notin> {''PR1'', ''GR1'', ''DR1''}"
proof -
  have "np_str (''PR1'' @ [NUL]) = ''PR1''"
    using np_str_padded [of "''PR1''" 1] by (simp add: NUL_def)
  then show ?thesis
    by (simp add: determine_assay_type_def np_str_allowed Let_def)
qed



section \<open>Properties of the filters\<close>


lemma select_map_comm: "select keep (map f xs) = map f (select keep xs)"
  unfolding select_def
  by (induction keep arbitrary: xs) (auto simp: zip_Cons1 split: list.splits)
























lemma length_select_map: "length (select keep (map f xs)) = length (select keep xs)"
  by (simp add: select_map_comm)

text \<open>
  C5. Every filter should keep the identifiers of the rows and columns it retains.
  \<open>filter_samples\<close> does not: it returns the bare array of the values, so its result is the
  same whatever the row and column labels of the frame are, here for the labels replaced
  through any two functions, and for the example frame the result is an array of three rows
  and two columns with no label. \<open>filter_probes\<close> on the same frame returns the retained row
  with its label and the column labels.
\<close>

theorem filter_samples_drops_labels:
  "filter_samples (df\<lparr>index := map f (index df), columns := map g (columns df)\<rparr>) cutoff
     = filter_samples df cutoff
   \<and> filter_samples qc_frame (Some (1/2))
     = \<lparr>nrows = 3, ncols = 2, cells = [[Some 1, Some 3], [NaN, NaN], [Some 1, Some 11]]\<rparr>"
proof -
  have "filter_samples (df\<lparr>index := map f (index df), columns := map g (columns df)\<rparr>) cutoff
        = filter_samples df cutoff"
    by (simp add: filter_samples_def frame_values_def loc_columns_def column_def Let_def
          length_select_map)
  moreover have "filter_samples qc_frame (Some (1/2))
     = \<lparr>nrows = 3, ncols = 2, cells = [[Some 1, Some 3], [NaN, NaN], [Some 1, Some 11]]\<rparr>"
    by (simp add: filter_samples_def frame_values_def loc_columns_def column_def Let_def
          qc_frame_def count_nulls_def isnull_def count_divide_def flt_def select_def upt_rec)
  ultimately show ?thesis by simp
qed

section \<open>Properties of the optimizer\<close>

lemma foldl_fadd_NaN: "foldl fadd NaN xs = NaN"
  by (induction xs) (auto simp: fadd_def)

lemma foldl_fadd_defined:
  "foldl fadd (Some a) (map Some vs) = Some (a + sum_list vs)"
  by (induction vs arbitrary: a) (auto simp: fadd_def algebra_simps)

lemma foldl_fadd_missing:
  "NaN \<in> set xs \<Longrightarrow> foldl fadd acc xs = NaN"
proof (induction xs arbitrary: acc)
  case Nil
  then show ?case by simp
next
  case (Cons x xs)
  show ?case
  proof (cases "x = NaN")
    case True
    then have "fadd acc x = NaN" by (simp add: fadd_def split: option.splits)
    then show ?thesis by (simp add: foldl_fadd_NaN)
  next
    case False
    with Cons.prems have "NaN \<in> set xs" by auto
    then show ?thesis by (simp add: Cons.IH)
  qed
qed

lemma no_NaN_map_Some: "NaN \<notin> set xs \<Longrightarrow> \<exists>vs. xs = map Some vs"
proof -
  assume "NaN \<notin> set xs"
  then have "map Some (map the xs) = xs" by (induction xs) auto
  then show ?thesis by metis
qed

lemma deviations_defined:
  "length vs = length ms \<Longrightarrow>
   np_square (map2 fsub (map (fadd (Some off)) (map Some vs)) (map Some ms))
     = map Some (map (\<lambda>(v, m). (off + v - m)\<^sup>2) (zip vs ms))"
  by (induction vs ms rule: list_induct2)
     (auto simp: np_square_def fadd_def fsub_def fmul_def power2_eq_square)

lemma spec_objective_defined:
  "length vs = length ms \<Longrightarrow>
   spec_objective off (map Some vs) (map Some ms)
     = sum_list (map (\<lambda>(v, m). (off + v - m)\<^sup>2) (zip vs ms))"
  by (induction vs ms rule: list_induct2) (auto simp: spec_objective_def)

lemma deviations_missing:
  "length vals = length medians \<Longrightarrow> NaN \<in> set vals \<or> NaN \<in> set medians \<Longrightarrow>
   NaN \<in> set (np_square (map2 fsub (map (fadd offset) vals) medians))"
proof (induction vals medians rule: list_induct2)
  case Nil
  then show ?case by simp
next
  case (Cons v vals m medians)
  show ?case
  proof (cases "v = NaN \<or> m = NaN")
    case True
    then have "fmul (fsub (fadd offset v) m) (fsub (fadd offset v) m) = NaN"
      by (auto simp: fmul_def fsub_def fadd_def split: option.splits)
    then show ?thesis by (simp add: np_square_def)
  next
    case False
    with Cons.prems have "NaN \<in> set vals \<or> NaN \<in> set medians" by auto
    then have "NaN \<in> set (np_square (map2 fsub (map (fadd offset) vals) medians))"
      by (rule Cons.IH)
    then show ?thesis by (simp add: np_square_def)
  qed
qed

text \<open>
  C1 (as the code has it). For a sample and the probe medians, arrays of the same length:
  when no entry of either is missing, the objective is the sum of
  \<open>(offset + value - median)\<^sup>2\<close> over all probes; as soon as one entry is missing, the
  objective is NaN, whatever the offset: Python's \<open>sum\<close> does not leave missing entries out.
\<close>

theorem function_to_optimize_value:
  assumes "length vals = length medians"
  shows "(NaN \<notin> set vals \<and> NaN \<notin> set medians \<longrightarrow>
            function_to_optimize (Some off) vals medians
              = Inr (Some (spec_objective off vals medians)))
         \<and> (NaN \<in> set vals \<or> NaN \<in> set medians \<longrightarrow>
            function_to_optimize offset vals medians = Inr NaN)"
proof (intro conjI impI)
  assume "NaN \<notin> set vals \<and> NaN \<notin> set medians"
  then obtain vs ms where vm: "vals = map Some vs" "medians = map Some ms"
    using no_NaN_map_Some by blast
  with assms have len: "length vs = length ms" by simp
  show "function_to_optimize (Some off) vals medians = Inr (Some (spec_objective off vals medians))"
  proof -
    have "py_sum (np_square (map2 fsub (map (fadd (Some off)) (map Some vs)) (map Some ms)))
          = Some (spec_objective off (map Some vs) (map Some ms))"
      unfolding py_sum_def deviations_defined [OF len] spec_objective_defined [OF len]
      by (simp only: foldl_fadd_defined add_0)
    then show ?thesis
      unfolding vm function_to_optimize_def broadcast_def using len by simp
  qed
next
  assume "NaN \<in> set vals \<or> NaN \<in> set medians"
  then have "NaN \<in> set (np_square (map2 fsub (map (fadd offset) vals) medians))"
    using assms deviations_missing by blast
  then have "py_sum (np_square (map2 fsub (map (fadd offset) vals) medians)) = NaN"
    unfolding py_sum_def by (rule foldl_fadd_missing)
  then show "function_to_optimize offset vals medians = Inr NaN"
    using assms by (simp add: function_to_optimize_def broadcast_def)
qed

text \<open>The objective of a sample with one value present and one missing is NaN, where the
  sum over the probes with defined values is \<open>1\<close>.\<close>

theorem function_to_optimize_counterexample:
  "function_to_optimize (Some 0) [Some 1, NaN] [Some 0, Some 0] = Inr NaN
   \<and> spec_objective 0 [Some 1, NaN] [Some 0, Some 0] = 1"
  by (simp add: function_to_optimize_def broadcast_def py_sum_def np_square_def
        fadd_def fsub_def fmul_def spec_objective_def)

theorem function_to_optimize_value_witness:
  "length [Some 1, Some (3::real)] = length [Some 0, Some (0::real)]
   \<and> function_to_optimize (Some 1) [Some 1, Some 3] [Some 0, Some 0] = Inr (Some 20)
   \<and> length [Some (1::real), NaN] = length [Some 0, Some (0::real)]
   \<and> function_to_optimize (Some 1) [Some 1, NaN] [Some 0, Some 0] = Inr NaN"
proof -
  have l1: "length [Some 1, Some (3::real)] = length [Some 0, Some (0::real)]" by simp
  have l2: "length [Some (1::real), NaN] = length [Some 0, Some (0::real)]" by simp
  have "function_to_optimize (Some 1) [Some 1, Some 3] [Some 0, Some 0]
        = Inr (Some (spec_objective 1 [Some 1, Some 3] [Some 0, Some 0]))"
    using function_to_optimize_value [OF l1, of 1] by simp
  moreover have "spec_objective 1 [Some 1, Some 3] [Some 0, Some 0] = 20"
    by (simp add: spec_objective_def)
  moreover have "function_to_optimize (Some 1) [Some 1, NaN] [Some 0, Some 0] = Inr NaN"
    using function_to_optimize_value [OF l2, of _ "Some 1"] by simp
  ultimately show ?thesis by simp
qed


lemma find_label:
  "find (\<lambda>k. columns df ! k = l) [0..<length (columns df)] = None \<longleftrightarrow> l \<notin> set (columns df)"
proof -
  have "l \<in> set (columns df) \<longleftrightarrow> (\<exists>k<length (columns df). columns df ! k = l)"
    by (metis in_set_conv_nth)
  then show ?thesis by (auto simp: find_None_iff)
qed

lemma loc_label_cases:
  "loc_label df (IntL (int j)) =
     (if IntL (int j) \<in> set (columns df) then Inr (label_column df j) else Inl KeyError)"
  using find_label [of df "IntL (int j)"]
  by (auto simp: loc_label_def label_column_def split: option.splits)

lemma length_label_column:
  "IntL (int j) \<in> set (columns df) \<Longrightarrow> length (label_column df j) = length (data df)"
  using find_label [of df "IntL (int j)"]
  by (auto simp: label_column_def loc_label_def column_def split: option.splits)

lemma objective_of_column:
  "IntL (int j) \<in> set (columns df) \<Longrightarrow>
   function_to_optimize offset (label_column df j) (map pd_median (data df))
   = Inr (py_sum (np_square (map2 fsub (map (fadd offset) (label_column df j))
                               (map pd_median (data df)))))"
  by (simp add: function_to_optimize_def broadcast_def length_label_column)

lemma sample_loop_step:
  assumes "IntL (int j) \<in> set (columns df)"
  shows "sample_loop ms b df (map pd_median (data df)) (j # js) st
         = sample_loop ms b df (map pd_median (data df)) js (loop_step ms df b st j)"
  using assms
  by (simp add: loc_label_cases objective_of_column [of j df "Some 0"] loop_step_def
        sample_result_def Let_def)

lemma sample_loop_foldl:
  "sample_loop ms b df (map pd_median (data df)) js st =
     (if labels_present df js then Inr (foldl (loop_step ms df b) st js) else Inl KeyError)"
proof (induction js arbitrary: st)
  case Nil
  then show ?case by (simp add: labels_present_def)
next
  case (Cons j js)
  show ?case
  proof (cases "IntL (int j) \<in> set (columns df)")
    case True
    then show ?thesis
      unfolding sample_loop_step [OF True] Cons.IH by (simp add: labels_present_def)
  next
    case False
    then show ?thesis by (simp add: loc_label_cases labels_present_def)
  qed
qed

lemma foldl_list_update:
  "k \<le> length xs \<Longrightarrow>
   foldl (\<lambda>ys j. ys[j := f j]) xs [0..<k] = map f [0..<k] @ drop k xs"
proof (induction k)
  case 0
  then show ?case by simp
next
  case (Suc k)
  then have k: "k < length xs" by simp
  have "foldl (\<lambda>ys j. ys[j := f j]) xs [0..<Suc k]
        = (map f [0..<k] @ drop k xs)[k := f k]"
    using Suc by simp
  also have "\<dots> = map f [0..<k] @ (drop k xs)[0 := f k]"
    by (simp add: list_update_append)
  also have "\<dots> = map f [0..<k] @ f k # drop (Suc k) xs"
    using k by (simp add: Cons_nth_drop_Suc [symmetric])
  finally show ?case by simp
qed

lemma foldl_list_update_all:
  "length xs = n \<Longrightarrow> foldl (\<lambda>ys j. ys[j := f j]) xs [0..<n] = map f [0..<n]"
  using foldl_list_update [of n xs f] by simp

lemma loop_fields:
  "optimized_offsets (foldl (loop_step ms df b) st js)
     = foldl (\<lambda>ys j. ys[j := res_x (sample_result ms df b j)]) (optimized_offsets st) js"
  "optimized_distances (foldl (loop_step ms df b) st js)
     = foldl (\<lambda>ys j. ys[j := res_fun (sample_result ms df b j)]) (optimized_distances st) js"
  "success_bools (foldl (loop_step ms df b) st js)
     = foldl (\<lambda>ys j. ys[j := res_success (sample_result ms df b j)]) (success_bools st) js"
  by (induction js arbitrary: st) (simp_all add: loop_step_def)

lemma optimize_sample_balance_outcome:
  "optimize_sample_balance ms df b =
     (if labels_present df [0..<length (columns df)]
      then Inr \<lparr>printed =
                  (if list_all (\<lambda>i. res_success (sample_result ms df b i)) [0..<length (columns df)]
                   then None
                   else Some (loc_columns df
                                (map (\<lambda>i. \<not> res_success (sample_result ms df b i))
                                   [0..<length (columns df)]))),
                returned =
                  (frame_add df (map (\<lambda>i. res_x (sample_result ms df b i)) [0..<length (columns df)]),
                   map (\<lambda>i. res_fun (sample_result ms df b i)) [0..<length (columns df)])\<rparr>
      else Inl KeyError)"
proof -
  define n where "n = length (columns df)"
  define init where
    "init = \<lparr>optimized_offsets = replicate n (Some (0::real)),
             optimized_distances = replicate n (Some (0::real)),
             unoptimized_distances = replicate n (Some (0::real)),
             success_bools = replicate n False\<rparr>"
  define final where "final = foldl (loop_step ms df b) init [0..<n]"
  have loop: "sample_loop ms b df (map pd_median (data df)) [0..<n] init
              = (if labels_present df [0..<n] then Inr final else Inl KeyError)"
    unfolding final_def by (rule sample_loop_foldl)
  have offs: "optimized_offsets final = map (\<lambda>j. res_x (sample_result ms df b j)) [0..<n]"
    unfolding final_def loop_fields by (rule foldl_list_update_all) (simp add: init_def)
  have dist: "optimized_distances final = map (\<lambda>j. res_fun (sample_result ms df b j)) [0..<n]"
    unfolding final_def loop_fields by (rule foldl_list_update_all) (simp add: init_def)
  have succ: "success_bools final = map (\<lambda>j. res_success (sample_result ms df b j)) [0..<n]"
    unfolding final_def loop_fields by (rule foldl_list_update_all) (simp add: init_def)
  have all: "list_all (\<lambda>b. b) (success_bools final)
             = list_all (\<lambda>j. res_success (sample_result ms df b j)) [0..<n]"
    unfolding succ by (simp add: list_all_iff)
  have neg: "map Not (success_bools final)
             = map (\<lambda>j. \<not> res_success (sample_result ms df b j)) [0..<n]"
    unfolding succ by simp
  have "optimize_sample_balance ms df b =
          (if labels_present df [0..<n]
           then Inr \<lparr>printed = (if \<not> list_all (\<lambda>b. b) (success_bools final)
                                then Some (loc_columns df (map Not (success_bools final)))
                                else None),
                    returned = (frame_add df (optimized_offsets final), optimized_distances final)\<rparr>
           else Inl KeyError)"
    unfolding optimize_sample_balance_def Let_def n_def [symmetric] init_def [symmetric] loop
    by simp
  then show ?thesis
    unfolding all neg offs dist n_def by simp
qed



lemma medians_balance_frame: "map pd_median (data balance_frame) = [Some 2, Some 5]"
  by (simp add: balance_frame_def pd_median_def dropna_def List.map_filter_simps)

lemma objective_0: "function_to_optimize (Some 1) [Some 1, Some 5] [Some 2, Some 5] = Inr (Some 1)"
  by (simp add: function_to_optimize_def broadcast_def py_sum_def np_square_def
        fadd_def fsub_def fmul_def)

lemma objective_1: "function_to_optimize (Some 1) [Some 3, Some 5] [Some 2, Some 5] = Inr (Some 5)"
  by (simp add: function_to_optimize_def broadcast_def py_sum_def np_square_def
        fadd_def fsub_def fmul_def)





lemma balance_results:
  "map (\<lambda>i. res_fun (sample_result (stub_minimizer False) balance_frame (-7, 7) i)) [0..<2]
   = [Some 1, Some 5]"
  "map (\<lambda>i. res_x (sample_result (stub_minimizer False) balance_frame (-7, 7) i)) [0..<2]
   = [Some 1, Some 1]"
proof -
  have l: "label_column balance_frame 0 = [Some 1, Some 5]"
      "label_column balance_frame (Suc 0) = [Some 3, Some 5]"
    by (simp_all add: label_column_def loc_label_def column_def balance_frame_def upt_rec)
  have u: "[0..<2] = [0, Suc 0]" by (simp add: upt_rec)
  show "map (\<lambda>i. res_fun (sample_result (stub_minimizer False) balance_frame (-7, 7) i)) [0..<2]
        = [Some 1, Some 5]"
    unfolding u by (simp add: sample_result_def stub_minimizer_def l medians_balance_frame
                      objective_0 objective_1)
  show "map (\<lambda>i. res_x (sample_result (stub_minimizer False) balance_frame (-7, 7) i)) [0..<2]
        = [Some 1, Some 1]"
    unfolding u by (simp add: sample_result_def stub_minimizer_def)
qed


text \<open>The columns are fetched by label: on a frame whose column labels are not the
  indices of the loop, here the labels \<open>a\<close>, \<open>b\<close>, \<open>c\<close>, the run fails with \<^verbatim>\<open>KeyError\<close>,
  whatever the minimizer.\<close>

lemma optimize_sample_balance_KeyError:
  "optimize_sample_balance ms qc_frame b = Inl KeyError"
  unfolding optimize_sample_balance_outcome
  by (simp add: labels_present_def qc_frame_def upt_rec)

section \<open>Properties of the outlier detector\<close>

lemma powr_powi: "(2::real) powr real_of_int e = 2 powi e"
  by (simp add: powr_real_of_int power_int_def power_one_over inverse_eq_divide)

lemma ulp_exponent_eval:
  assumes "2 powi e \<le> \<bar>x\<bar>" and "\<bar>x\<bar> < 2 powi (e + 1)" and "- 1022 \<le> e"
  shows "ulp_exponent x = e - 52"
proof -
  have pos: "0 < \<bar>x\<bar>" using assms(1) by (smt (verit) zero_less_power_int)
  have "\<lfloor>log 2 \<bar>x\<bar>\<rfloor> = e"
    using assms(1,2) pos by (simp add: floor_log_eq_powr_iff powr_powi [symmetric])
  then show ?thesis using assms(3) by (simp add: ulp_exponent_def)
qed

lemma round64_eval:
  assumes "2 powi e \<le> \<bar>x\<bar>" and "\<bar>x\<bar> < 2 powi (e + 1)" and "- 1022 \<le> e"
  shows "round64 x = of_int (round_half_even (x / 2 powi (e - 52))) * 2 powi (e - 52)"
proof -
  have "x \<noteq> 0" using assms(1) by (smt (verit) zero_less_power_int abs_zero)
  then show ?thesis by (simp add: round64_def ulp_exponent_eval [OF assms])
qed

lemma round_half_even_of_int: "round_half_even (of_int m) = m"
  by (simp add: round_half_even_def)

lemma round64_exact:
  assumes "2 powi e \<le> \<bar>x\<bar>" and "\<bar>x\<bar> < 2 powi (e + 1)" and "- 1022 \<le> e"
    and "x / 2 powi (e - 52) = of_int m"
  shows "round64 x = x"
proof -
  have "round64 x = of_int m * 2 powi (e - 52)"
    unfolding round64_eval [OF assms(1-3)] assms(4) round_half_even_of_int ..
  also have "\<dots> = x" using assms(4) by (simp add: field_simps)
  finally show ?thesis .
qed

lemma round64_as:
  assumes "x = y" and "2 powi e \<le> \<bar>y\<bar>" and "\<bar>y\<bar> < 2 powi (e + 1)" and "- 1022 \<le> e"
    and "y / 2 powi (e - 52) = of_int m"
  shows "round64 x = y"
  unfolding assms(1) by (rule round64_exact [OF assms(2-5)])

text \<open>
  C4. \<open>remove_sample_outliers\<close> should keep the samples whose distance is strictly below
  the cutoff. On a pandas frame, which is what its docstring names and what the optimizer
  hands over, it keeps nothing and returns nothing: it raises \<^verbatim>\<open>TypeError\<close>, whatever the
  frame, the distances and the multiplier.
\<close>

theorem remove_sample_outliers_frame:
  "remove_sample_outliers (Frame df) distances k = Inl TypeError"
  by (simp add: remove_sample_outliers_def Let_def)

lemma round64_0: "round64 0 = 0"
  by (simp add: round64_def)

lemma fadd64_zero: "fadd64 (Some 0) (Some 0) = Some 0"
  by (simp add: fadd64_def round64_0)

lemma foldl_fadd64_zeros: "foldl fadd64 (Some 0) (replicate n (Some 0)) = Some 0"
  by (induction n) (simp_all add: fadd64_zero)

lemma accumulate8_zeros:
  "accumulate8 (replicate 8 (Some 0)) (replicate n (Some 0)) = replicate 8 (Some 0)"
proof (induction n rule: less_induct)
  case (less n)
  show ?case
  proof (cases "n < 8")
    case True
    then show ?thesis by (subst accumulate8.simps) simp
  next
    case False
    then have "n - 8 < n" by simp
    from less [OF this] False show ?thesis
      by (subst accumulate8.simps) (simp add: fadd64_zero min_def)
  qed
qed

lemma pairwise_sum_zeros: "pairwise_sum (replicate n (Some 0)) = Some 0"
proof (induction n rule: less_induct)
  case (less n)
  show ?case
  proof (cases "n < 8")
    case True
    then show ?thesis by (subst pairwise_sum.simps) (simp add: foldl_fadd64_zeros)
  next
    case False
    note big = this
    show ?thesis
    proof (cases "n \<le> 128")
      case True
      have nth: "replicate 8 (Some (0::real)) ! i = Some 0" if "i < 8" for i
        using that by simp
      have m: "min 8 n = 8" "min (n - n mod 8) n = n - n mod 8" using big by simp_all
      have "pairwise_sum (replicate n (Some 0))
            = foldl fadd64 (Some 0) (replicate (n mod 8) (Some 0))"
        using big True
        by (subst pairwise_sum.simps)
           (simp add: Let_def m accumulate8_zeros fadd64_zero nth)
      then show ?thesis by (simp add: foldl_fadd64_zeros)
    next
      case False
      let ?n2 = "n div 2 - (n div 2) mod 8"
      have lt: "?n2 < n" "n - ?n2 < n" using False by arith+
      have le: "min ?n2 n = ?n2" using lt by simp
      from less [OF lt(1)] less [OF lt(2)] big False show ?thesis
        by (subst pairwise_sum.simps) (simp add: Let_def le fadd64_zero)
    qed
  qed
qed

lemma select_none: "\<forall>b \<in> set keep. \<not> b \<Longrightarrow> select keep xs = []"
  by (auto simp: select_def filter_empty_conv dest: set_zip_leftD)

lemma np_std_equal:
  assumes "\<forall>d \<in> set distances. d = Some v" and "np_mean distances = Some v"
  shows "np_std distances = Some 0"
proof -
  have n: "distances \<noteq> []"
    using assms(2) by (auto simp: np_mean_def fdiv64_def np_sum_def split: option.splits)
  have "map (\<lambda>a. fsub64 a (Some v)) distances = map (\<lambda>a. Some 0) distances"
    using assms(1) by (auto simp: fsub64_def round64_0)
  then have dev: "map (\<lambda>a. fmul64 a a) (map (\<lambda>a. fsub64 a (Some v)) distances)
                  = replicate (length distances) (Some 0)"
    by (simp add: fmul64_def round64_0 map_replicate_const)
  have "np_std distances
        = fsqrt64 (fdiv64 (np_sum (replicate (length distances) (Some 0)))
                     (Some (real (length distances))))"
    unfolding np_std_def Let_def assms(2) dev ..
  then show ?thesis
    using n by (simp add: np_sum_def pairwise_sum_zeros fdiv64_def fsqrt64_def round64_0)
qed

lemma equal_distances_not_below:
  assumes "\<forall>d \<in> set distances. d = c" and "is_float64 c" and "np_mean distances = c"
    and "d \<in> set distances"
  shows "\<not> flt d (fadd64 (np_mean distances) (fmul64 (np_std distances) k))"
proof (cases c)
  case None
  with assms have "d = NaN" by simp
  then show ?thesis by (simp add: flt_def)
next
  case (Some v)
  have std: "np_std distances = Some 0"
    using np_std_equal assms(1,3) Some by simp
  have v: "round64 v = v" using assms(2) Some by (simp add: is_float64_def)
  have "d = Some v" using assms(1,4) Some by simp
  then show ?thesis
    unfolding std assms(3) Some
    by (cases k) (simp_all add: flt_def fadd64_def fmul64_def round64_0 v)
qed

text \<open>
  C10 (as the code has it). For an array with as many columns as there are distances, and
  every multiplier: when all distances are the same float64 number, or all NaN, and the
  mean that \<open>np_mean\<close> computes from them is that number again, \<open>remove_sample_outliers\<close>
  removes every sample: the standard deviation is zero, the cutoff is the common distance,
  or NaN, and no distance is strictly below it.
\<close>

theorem remove_sample_outliers_equal_distances:
  assumes "length distances = ncols a"
    and "\<forall>d \<in> set distances. d = c"
    and "is_float64 c"
    and "np_mean distances = c"
  shows "remove_sample_outliers (Array a) distances k
         = Inr \<lparr>nrows = nrows a, ncols = 0, cells = map (\<lambda>r. []) (cells a)\<rparr>"
proof -
  define keep where
    "keep = map (\<lambda>d. flt d (fadd64 (np_mean distances) (fmul64 (np_std distances) k))) distances"
  have none: "\<forall>b \<in> set keep. \<not> b"
    unfolding keep_def using equal_distances_not_below [OF assms(2-4)] by auto
  then have "filter (\<lambda>b. b) keep = []" by (simp add: filter_empty_conv)
  moreover have "map (select keep) (cells a) = map (\<lambda>r. []) (cells a)"
    by (simp add: select_none [OF none])
  moreover have "length keep = ncols a" using assms(1) by (simp add: keep_def)
  ultimately show ?thesis
    unfolding remove_sample_outliers_def Let_def keep_def [symmetric] take_columns_def by simp
qed

lemma round64_small_ints:
  "round64 4 = 4" "round64 8 = 8" "round64 12 = 12" "round64 16 = 16" "round64 20 = 20"
proof -
  show "round64 4 = 4"
    by (rule round64_exact [where e = 2 and m = "2 ^ 52"]) simp_all
  show "round64 8 = 8"
    by (rule round64_exact [where e = 3 and m = "2 ^ 52"]) simp_all
  show "round64 12 = 12"
    by (rule round64_exact [where e = 3 and m = "3 * 2 ^ 51"]) simp_all
  show "round64 16 = 16"
    by (rule round64_exact [where e = 4 and m = "2 ^ 52"]) simp_all
  show "round64 20 = 20"
    by (rule round64_exact [where e = 4 and m = "5 * 2 ^ 50"]) simp_all
qed

lemma np_mean_fours: "np_mean [Some 4, Some 4, Some 4, Some 4, Some 4] = Some 4"
  by (simp add: np_mean_def np_sum_def pairwise_sum.simps fadd64_def fdiv64_def round64_small_ints)

theorem remove_sample_outliers_equal_distances_witness:
  "length [Some 4, Some 4, Some 4, Some 4, Some (4::real)] = ncols five_samples
   \<and> (\<forall>d \<in> set [Some 4, Some 4, Some 4, Some 4, Some (4::real)]. d = Some 4) = True
   \<and> is_float64 (Some 4)
   \<and> np_mean [Some 4, Some 4, Some 4, Some 4, Some 4] = Some 4
   \<and> remove_sample_outliers (Array five_samples) [Some 4, Some 4, Some 4, Some 4, Some 4] (Some 3)
       = Inr \<lparr>nrows = 1, ncols = 0, cells = [[]]\<rparr>"
proof -
  let ?ds = "[Some 4, Some 4, Some 4, Some 4, Some (4::real)]"
  have len: "length ?ds = ncols five_samples" by (simp add: five_samples_def)
  have eq: "\<forall>d \<in> set ?ds. d = Some 4" by simp
  have fl: "is_float64 (Some 4)" by (simp add: is_float64_def round64_small_ints)
  show ?thesis
    using remove_sample_outliers_equal_distances [OF len eq fl np_mean_fours, of "Some 3"]
      len fl np_mean_fours
    by (simp add: five_samples_def)
qed

lemma tenth_sum: "np_sum [tenth, tenth, tenth] = Some (5404319552844596 / 2 ^ 54)"
proof -
  let ?D = "3602879701896397 / 2 ^ 55 :: real"
  have a1: "round64 (0 + ?D) = ?D"
    by (rule round64_as [where e = "- 4" and m = 7205759403792794]) simp_all
  have a2: "round64 (?D + ?D) = 3602879701896397 / 2 ^ 54"
    by (rule round64_as [where e = "- 3" and m = 7205759403792794]) simp_all
  have "round64 (3602879701896397 / 2 ^ 54 + ?D)
        = of_int (round_half_even ((3602879701896397 / 2 ^ 54 + ?D) / 2 powi (- 2 - 52)))
          * 2 powi (- 2 - 52)"
    by (rule round64_eval) simp_all
  also have "(3602879701896397 / 2 ^ 54 + ?D) / 2 powi (- 2 - 52) = 10808639105689191 / 2"
    by simp
  also have "round_half_even (10808639105689191 / 2) = 5404319552844596"
    by (simp add: round_half_even_def Let_def)
  finally have a3: "round64 (3602879701896397 / 2 ^ 54 + ?D) = 5404319552844596 / 2 ^ 54"
    by simp
  show ?thesis
    unfolding np_sum_def tenth_def
    by (subst pairwise_sum.simps) (simp only: fadd64_def a1 a2 a3 foldl.simps list.size
          option.case prod.case, simp)
qed

lemma tenth_mean: "np_mean [tenth, tenth, tenth] = Some (7205759403792795 / 2 ^ 56)"
proof -
  have "round64 (5404319552844596 / 2 ^ 54 / 3)
        = of_int (round_half_even ((5404319552844596 / 2 ^ 54 / 3) / 2 powi (- 4 - 52)))
          * 2 powi (- 4 - 52)"
    by (rule round64_eval) simp_all
  also have "(5404319552844596 / 2 ^ 54 / 3) / 2 powi (- 4 - 52) = (21617278211378384 / 3 :: real)"
    by simp
  also have "round_half_even (21617278211378384 / 3) = 7205759403792795"
    by (simp add: round_half_even_def Let_def)
  finally have "round64 (5404319552844596 / 2 ^ 54 / 3) = 7205759403792795 / 2 ^ 56"
    by simp
  then show ?thesis
    by (simp add: np_mean_def tenth_sum fdiv64_def)
qed

lemma tenth_std: "np_std [tenth, tenth, tenth] = Some (1 / 2 ^ 56)"
proof -
  let ?D = "3602879701896397 / 2 ^ 55 :: real"
  let ?M = "7205759403792795 / 2 ^ 56 :: real"
  have dev: "round64 (?D - ?M) = - (1 / 2 ^ 56)"
    by (rule round64_as [where e = "- 56" and m = "- (2 ^ 52)"]) simp_all
  have sq: "round64 (- (1 / 2 ^ 56) * - (1 / 2 ^ 56)) = 1 / 2 ^ 112"
    by (rule round64_as [where e = "- 112" and m = "2 ^ 52"]) simp_all
  have s1: "round64 (0 + 1 / 2 ^ 112) = 1 / 2 ^ 112"
    by (rule round64_as [where e = "- 112" and m = "2 ^ 52"]) simp_all
  have s2: "round64 (1 / 2 ^ 112 + 1 / 2 ^ 112) = 1 / 2 ^ 111"
    by (rule round64_as [where e = "- 111" and m = "2 ^ 52"]) simp_all
  have s3: "round64 (1 / 2 ^ 111 + 1 / 2 ^ 112) = 3 / 2 ^ 112"
    by (rule round64_as [where e = "- 111" and m = "3 * 2 ^ 51"]) simp_all
  have dv: "round64 (3 / 2 ^ 112 / 3) = 1 / 2 ^ 112"
    by (rule round64_as [where e = "- 112" and m = "2 ^ 52"]) simp_all
  have rt: "sqrt (1 / 2 ^ 112) = 1 / 2 ^ 56"
    by (rule real_sqrt_unique) (simp_all add: power2_eq_square)
  have sr: "round64 (1 / 2 ^ 56) = 1 / 2 ^ 56"
    by (rule round64_as [where e = "- 56" and m = "2 ^ 52"]) simp_all
  have x2: "map (\<lambda>a. fmul64 a a) (map (\<lambda>a. fsub64 a (Some ?M)) [tenth, tenth, tenth])
            = [Some (1 / 2 ^ 112), Some (1 / 2 ^ 112), Some (1 / 2 ^ 112)]"
    unfolding tenth_def
    by (simp only: list.map fsub64_def fmul64_def option.case prod.case dev sq)
  have sum: "np_sum [Some (1 / 2 ^ 112), Some (1 / 2 ^ 112), Some (1 / 2 ^ 112)]
             = Some (3 / 2 ^ 112)"
    unfolding np_sum_def
    by (subst pairwise_sum.simps) (simp only: fadd64_def s1 s2 s3 foldl.simps list.size
          option.case prod.case, simp)
  have n: "real (length [tenth, tenth, tenth]) = 3" by simp
  have q: "fdiv64 (Some (3 / 2 ^ 112)) (Some 3) = Some (1 / 2 ^ 112)"
    unfolding fdiv64_def by (simp only: prod.case option.case dv) simp
  have r: "fsqrt64 (Some (1 / 2 ^ 112)) = Some (1 / 2 ^ 56)"
    unfolding fsqrt64_def by (simp only: option.case rt sr) simp
  show ?thesis
    unfolding np_std_def Let_def tenth_mean x2 sum n q r ..
qed

lemma tenth_cutoff:
  "fadd64 (np_mean [tenth, tenth, tenth]) (fmul64 (np_std [tenth, tenth, tenth]) (Some 3))
   = Some (7205759403792798 / 2 ^ 56)"
proof -
  have m: "round64 (1 / 2 ^ 56 * 3) = 3 / 2 ^ 56"
    by (rule round64_as [where e = "- 55" and m = "3 * 2 ^ 51"]) simp_all
  have a: "round64 (7205759403792795 / 2 ^ 56 + 3 / 2 ^ 56) = 7205759403792798 / 2 ^ 56"
    by (rule round64_as [where e = "- 4" and m = 7205759403792798]) simp_all
  show ?thesis
    unfolding tenth_mean tenth_std
    by (simp only: fadd64_def fmul64_def option.case prod.case m a)
qed

lemma tenth_float: "is_float64 tenth"
  unfolding is_float64_def tenth_def
  by (simp only: option.case)
     (rule round64_as [where e = "- 4" and m = 7205759403792794], simp_all)

text \<open>Three distances of \<open>0.1\<close> and the multiplier \<open>3\<close>: the sum rounds to
  \<open>0.30000000000000004\<close> and the mean to \<open>0.10000000000000002\<close>, above the common
  distance, so the cutoff is above it and all three samples are kept.\<close>

theorem remove_sample_outliers_equal_distances_counterexample:
  "is_float64 tenth
   \<and> remove_sample_outliers (Array three_samples) [tenth, tenth, tenth] (Some 3)
       = Inr \<lparr>nrows = 1, ncols = 3, cells = [[Some 2, Some 3, Some 5]]\<rparr>"
proof -
  have "flt tenth (Some (7205759403792798 / 2 ^ 56))"
    by (simp add: flt_def tenth_def)
  then have "remove_sample_outliers (Array three_samples) [tenth, tenth, tenth] (Some 3)
             = Inr \<lparr>nrows = 1, ncols = 3, cells = [[Some 2, Some 3, Some 5]]\<rparr>"
    unfolding remove_sample_outliers_def Let_def tenth_cutoff
    by (simp add: take_columns_def three_samples_def select_def)
  with tenth_float show ?thesis by simp
qed

section \<open>Properties of the plate/well report\<close>

lemma sorted_metric_names:
  "sorted_strings [''medium_over_heavy_median'', ''medium_over_heavy_mad'']
   = [''medium_over_heavy_mad'', ''medium_over_heavy_median'']"
  by (simp add: sorted_strings_def)

lemma assemble_output_df_fields:
  "assemble_output_df plate_names well_names
     [(''medium_over_heavy_median'', medians), (''medium_over_heavy_mad'', mads)] = Inr out \<Longrightarrow>
   out = [(''plate_name'', map Str plate_names), (''well_name'', map Str well_names),
          (''medium_over_heavy_mad'', map Num mads), (''medium_over_heavy_median'', map Num medians)]"
  by (auto simp: assemble_output_df_def Let_def sorted_metric_names List.map_filter_simps
           split: if_splits sum.splits)

lemma main_fields:
  "main a g = Inr out \<Longrightarrow>
   map fst out = [''plate_name'', ''well_name'', ''medium_over_heavy_mad'', ''medium_over_heavy_median'']"
  unfolding main_def Let_def
  by (auto split: sum.splits list.splits prod.splits dest!: assemble_output_df_fields)

lemma plate_columns:
  "frame_columns \<lparr>index = [StrL ''p1'', StrL ''p2''], columns = [StrL ''s1'', StrL ''s2''],
                  data = [[Some (1/2), Some 1], [Some 1, Some (1/2)]]\<rparr>
   = [[Some (1/2), Some 1], [Some 1, Some (1/2)]]"
  by (simp add: frame_columns_def column_def upt_rec)

lemma plate_stats:
  "pd_median [Some (1/2), Some 1] = Some (3/4)" "pd_median [Some 1, Some (1/2)] = Some (3/4)"
  "pd_mad [Some (1/2), Some 1] = Some (1/4)" "pd_mad [Some 1, Some (1/2)] = Some (1/4)"
  by (simp_all add: pd_median_def pd_mad_def dropna_def List.map_filter_simps)

lemma main_plate_gct:
  "main plate_args plate_gct =
     Inr [(''plate_name'', [Str ''P1'', Str ''P1'']),
          (''well_name'', [Str ''A01'', Str ''A02'']),
          (''medium_over_heavy_mad'', [Num (Some (1/4)), Num (Some (1/4))]),
          (''medium_over_heavy_median'', [Num (Some (3/4)), Num (Some (3/4))])]"
proof -
  have names: "extract_plate_and_well_names (col_metadata_df plate_gct) (plate_field plate_args)
                 (well_field plate_args) = Inr ([''P1'', ''P1''], [''A01'', ''A02''])"
    by (simp add: extract_plate_and_well_names_def meta_column_def plate_gct_def plate_args_def)
  have prov: "meta_column (col_metadata_df plate_gct) PROV_CODE_FIELD = Inr [''PR1+SF8'', ''PR1+SF8'']"
    by (simp add: meta_column_def plate_gct_def PROV_CODE_FIELD_def)
  have sp: "map (split PROV_CODE_DELIMITER) [''PR1+SF8'', ''PR1+SF8'']
            = [[''PR1'', ''SF8''], [''PR1'', ''SF8'']]"
    by (simp add: PROV_CODE_DELIMITER_def)
  have divided: "frame_div_rows (data_df plate_gct) (map pd_max (data (data_df plate_gct)))
                 = \<lparr>index = [StrL ''p1'', StrL ''p2''], columns = [StrL ''s1'', StrL ''s2''],
                    data = [[Some (1/2), Some 1], [Some 1, Some (1/2)]]\<rparr>"
    by (simp add: frame_div_rows_def plate_gct_def pd_max_def dropna_def List.map_filter_simps
          fdiv_def)
  show ?thesis
    unfolding main_def Let_def names prov sp
    by (simp add: LOG_TRANSFORM_PROV_CODE_ENTRY_def divided plate_columns plate_stats
          assemble_output_df_def sorted_metric_names List.map_filter_simps)
qed

text \<open>
  C9. The report should hold, for each sample, the median, the mean, the absolute deviation
  and the standard deviation of the row-normalised values. Whenever \<open>main\<close> produces a
  table, its columns are the plate name, the well name, the mean absolute deviation and the
  median: the mean and the standard deviation are computed and left out. For the example
  dataset the table is the one given.
\<close>

theorem main_output_fields:
  "(case main a g of
      Inl e \<Rightarrow> True
    | Inr out \<Rightarrow> map fst out = [''plate_name'', ''well_name'',
                                ''medium_over_heavy_mad'', ''medium_over_heavy_median''])
   \<and> main plate_args plate_gct =
     Inr [(''plate_name'', [Str ''P1'', Str ''P1'']),
          (''well_name'', [Str ''A01'', Str ''A02'']),
          (''medium_over_heavy_mad'', [Num (Some (1/4)), Num (Some (1/4))]),
          (''medium_over_heavy_median'', [Num (Some (3/4)), Num (Some (3/4))])]"
  using main_fields main_plate_gct by (auto split: sum.splits)


end
